theory Spec2Isabelle
  imports Main "HOL-Library.Word" "HOL-Library.Sublist"
begin

section \<open>Strings of the host language\<close>

text \<open>
  A TypeScript string is a finite sequence of 16-bit code units. The three string
  operations the controller relies on are strict equality (equality of the sequences),
  \<^verbatim>\<open>String.prototype.includes\<close> (contiguous substring search from position 0) and
  \<^verbatim>\<open>String.prototype.trim\<close> (removal of leading and trailing WhiteSpace and
  LineTerminator code units). String literals of the source are ASCII and are written
  with \<open>str\<close>.
\<close>

type_synonym jsstring = "16 word list"

definition str :: "string \<Rightarrow> jsstring" where
  "str cs = map of_char cs"

definition isWhiteSpace :: "16 word \<Rightarrow> bool" where
  "isWhiteSpace c \<longleftrightarrow>
     c = 0x0009 \<or> c = 0x000B \<or> c = 0x000C \<or> c = 0x0020 \<or> c = 0x00A0 \<or> c = 0x1680 \<or>
     (0x2000 \<le> c \<and> c \<le> 0x200A) \<or> c = 0x202F \<or> c = 0x205F \<or> c = 0x3000 \<or> c = 0xFEFF"

definition isLineTerminator :: "16 word \<Rightarrow> bool" where
  "isLineTerminator c \<longleftrightarrow> c = 0x000A \<or> c = 0x000D \<or> c = 0x2028 \<or> c = 0x2029"

definition isTrimmed :: "16 word \<Rightarrow> bool" where
  "isTrimmed c \<longleftrightarrow> isWhiteSpace c \<or> isLineTerminator c"

definition trim :: "jsstring \<Rightarrow> jsstring" where
  "trim s = rev (dropWhile isTrimmed (rev (dropWhile isTrimmed s)))"

fun js_includes :: "jsstring \<Rightarrow> jsstring \<Rightarrow> bool" where
  "js_includes [] sub = (sub = [])"
| "js_includes (c # cs) sub = (prefix sub (c # cs) \<or> js_includes cs sub)"

text \<open>Truthiness of a string value: only the empty string is falsy.\<close>

definition truthy :: "jsstring \<Rightarrow> bool" where
  "truthy s \<longleftrightarrow> s \<noteq> []"

section \<open>Data model (types.ts)\<close>

record WeatherData =
  temperature :: jsstring
  condition :: jsstring
  date :: jsstring
  cityNativeName :: jsstring
  cityName :: jsstring
  iconDescription :: jsstring
  isDay :: bool
  sources :: "jsstring list option"

datatype AppState = IDLE | FETCHING_WEATHER | GENERATING_IMAGE | DISPLAY | ERROR

section \<open>The two remote collaborators\<close>

text \<open>
  \<^verbatim>\<open>getCityWeather\<close> and \<open>generateIsometricCity\<close> are imported from the service
  module and are parameters of the model. A call yields a promise, which is awaited: it
  resolves with a value, rejects with a thrown value whose \<open>message\<close> property is read
  by the handler (absent, or a string), or never settles.
\<close>

datatype js_error = JsError (message: "jsstring option")

datatype 'a promise = Resolved 'a | Rejected js_error | Pending

type_synonym weather_service = "jsstring \<Rightarrow> WeatherData promise"
type_synonym image_service = "WeatherData \<Rightarrow> jsstring promise"

section \<open>Component state of App\<close>

record app =
  cityInput :: jsstring
  appState :: AppState
  weatherData :: "WeatherData option"
  generatedImage :: jsstring
  errorMsg :: jsstring
  username :: jsstring
  showOnboarding :: bool
  showStoragePermission :: bool
  showPrivacy :: bool

text \<open>The values passed to \<open>useState\<close> on the first render.\<close>

definition initial :: app where
  "initial = \<lparr> cityInput = [], appState = IDLE, weatherData = None, generatedImage = [],
     errorMsg = [], username = [], showOnboarding = False, showStoragePermission = False,
     showPrivacy = False \<rparr>"

section \<open>Handlers as scripts of effects\<close>

text \<open>
  A handler is modelled by the sequence of effects it performs, in program order: calls
  of the state setters, calls of the collaborators and the console log. The state after
  the handler is the fold of the setter calls over the state before it.
\<close>

datatype effect =
    SetCityInput jsstring
  | SetAppState AppState
  | SetWeatherData "WeatherData option"
  | SetGeneratedImage jsstring
  | SetErrorMsg jsstring
  | CallGetCityWeather jsstring
  | CallGenerateIsometricCity WeatherData
  | ConsoleError js_error

fun apply_effect :: "app \<Rightarrow> effect \<Rightarrow> app" where
  "apply_effect s (SetCityInput v) = s\<lparr>cityInput := v\<rparr>"
| "apply_effect s (SetAppState v) = s\<lparr>appState := v\<rparr>"
| "apply_effect s (SetWeatherData v) = s\<lparr>weatherData := v\<rparr>"
| "apply_effect s (SetGeneratedImage v) = s\<lparr>generatedImage := v\<rparr>"
| "apply_effect s (SetErrorMsg v) = s\<lparr>errorMsg := v\<rparr>"
| "apply_effect s (CallGetCityWeather c) = s"
| "apply_effect s (CallGenerateIsometricCity d) = s"
| "apply_effect s (ConsoleError e) = s"

definition run :: "app \<Rightarrow> effect list \<Rightarrow> app" where
  "run s es = foldl apply_effect s es"

text \<open>The \<open>catch\<close> block of \<open>handleSearch\<close>.\<close>

definition handleSearch_catch :: "js_error \<Rightarrow> effect list" where
  "handleSearch_catch err =
     ConsoleError err #
     (if message err = Some (str ''MISSING_API_KEY'') then
        [SetErrorMsg (str ''API Key missing! Please check configuration.''), SetAppState ERROR]
      else if (case message err of
                 None \<Rightarrow> False
               | Some m \<Rightarrow> truthy m \<and>
                   (js_includes m (str ''403'') \<or> js_includes m (str ''Permission Denied''))) then
        [SetErrorMsg (str ''Access Denied. Please check API Key.''), SetAppState ERROR]
      else
        [SetErrorMsg (case message err of
                        None \<Rightarrow> str ''Unable to retrieve city data. Please try again.''
                      | Some m \<Rightarrow> if truthy m then m
                                  else str ''Unable to retrieve city data. Please try again.''),
         SetAppState ERROR])"

text \<open>
  \<open>handleSearch\<close>, with the city input of the render that created the callback. The
  call of \<open>preventDefault\<close> on the form event touches no state of the component and is
  left out. An await of a promise that never settles ends the script there.
\<close>

definition handleSearch_script ::
  "weather_service \<Rightarrow> image_service \<Rightarrow> jsstring \<Rightarrow> effect list" where
  "handleSearch_script getCityWeather generateIsometricCity city =
     (if \<not> truthy (trim city) then []
      else
        [SetErrorMsg [], SetAppState FETCHING_WEATHER, CallGetCityWeather city] @
        (case getCityWeather city of
           Pending \<Rightarrow> []
         | Rejected err \<Rightarrow> handleSearch_catch err
         | Resolved data \<Rightarrow>
             [SetWeatherData (Some data), SetAppState GENERATING_IMAGE,
              CallGenerateIsometricCity data] @
             (case generateIsometricCity data of
                Pending \<Rightarrow> []
              | Rejected err \<Rightarrow> handleSearch_catch err
              | Resolved imageUrl \<Rightarrow> [SetGeneratedImage imageUrl, SetAppState DISPLAY])))"

definition handleSearch :: "weather_service \<Rightarrow> image_service \<Rightarrow> app \<Rightarrow> app" where
  "handleSearch getCityWeather generateIsometricCity s =
     run s (handleSearch_script getCityWeather generateIsometricCity (cityInput s))"

definition handleReset_script :: "effect list" where
  "handleReset_script =
     [SetAppState IDLE, SetCityInput [], SetWeatherData None, SetGeneratedImage []]"

definition handleReset :: "app \<Rightarrow> app" where
  "handleReset s = run s handleReset_script"

section \<open>Presentation: the element tree returned by App\<close>

text \<open>
  The callbacks that the rendered elements are bound to. \<open>OnCityInputChange\<close> is the
  inline \<open>onChange\<close> of the text input, which calls \<open>setCityInput\<close>.
\<close>

datatype handler =
    HandleSaveName
  | HandleAllowStorage
  | HandleDenyStorage
  | HandleOpenPrivacy
  | HandleClosePrivacy
  | OnCityInputChange
  | HandleSearch
  | HandleReset

text \<open>
  The children of the frame, with the properties they receive. \<open>EntryForm\<close> is the
  form of the entry screen (input value, \<open>onChange\<close>, \<open>onSubmit\<close>);
  \<open>ErrorScreen\<close> is the generic error panel (background class, heading, message,
  button label, \<open>onClick\<close>); \<open>SearchAgainButton\<close> is the round button of the
  display screen. Class names other than the background of the error panel, and the two
  emoji, are left out.
\<close>

datatype element =
    Onboarding handler
  | StoragePermission handler handler
  | PrivacyPolicy handler
  | UserMenu jsstring handler bool
  | EntryForm jsstring handler handler
  | GlassyLoader jsstring
  | TiredMascot handler
  | ErrorScreen jsstring jsstring jsstring jsstring handler
  | WeatherCard jsstring WeatherData
  | ShareButton WeatherData jsstring jsstring bool
  | SearchAgainButton handler
  | AdBanner jsstring

definition AD_BANNER_ID :: jsstring where
  "AD_BANNER_ID = str ''ca-app-pub-3940256099942544/6300978111''"

definition isDailyLimitError :: "app \<Rightarrow> bool" where
  "isDailyLimitError s = js_includes (errorMsg s) (str ''Daily free limit reached'')"

definition isRpmError :: "app \<Rightarrow> bool" where
  "isRpmError s = js_includes (errorMsg s) (str ''Too many requests'')"

definition isModalOpen :: "app \<Rightarrow> bool" where
  "isModalOpen s \<longleftrightarrow> showOnboarding s \<or> showStoragePermission s"

definition isDarkBg :: "app \<Rightarrow> bool" where
  "isDarkBg s \<longleftrightarrow>
     appState s = DISPLAY \<and> (case weatherData s of None \<Rightarrow> True | Some d \<Rightarrow> \<not> isDay d)"

definition loaderStatus :: "app \<Rightarrow> jsstring" where
  "loaderStatus s =
     (if appState s = FETCHING_WEATHER then str ''Consulting the skies...''
      else str ''Painting '' @
        (case weatherData s of
           None \<Rightarrow> cityInput s
         | Some d \<Rightarrow> if truthy (cityNativeName d) then cityNativeName d else cityInput s) @
        str ''...'')"

text \<open>\<open>c && e\<close> in the element tree: the elements when \<open>c\<close> holds, nothing otherwise.\<close>

definition shown :: "bool \<Rightarrow> element list \<Rightarrow> element list" where
  "shown c es = (if c then es else [])"

definition render :: "app \<Rightarrow> element list" where
  "render s =
     shown (showOnboarding s) [Onboarding HandleSaveName] @
     shown (showStoragePermission s) [StoragePermission HandleAllowStorage HandleDenyStorage] @
     shown (showPrivacy s) [PrivacyPolicy HandleClosePrivacy] @
     shown (\<not> isModalOpen s \<and> \<not> isDailyLimitError s)
       [UserMenu (username s) HandleOpenPrivacy (isDarkBg s)] @
     shown (appState s = IDLE) [EntryForm (cityInput s) OnCityInputChange HandleSearch] @
     shown (appState s = FETCHING_WEATHER \<or> appState s = GENERATING_IMAGE)
       [GlassyLoader (loaderStatus s)] @
     shown (appState s = ERROR \<and> isDailyLimitError s) [TiredMascot HandleReset] @
     shown (appState s = ERROR \<and> \<not> isDailyLimitError s)
       [ErrorScreen (if isRpmError s then str ''bg-amber-50'' else str ''bg-red-50'')
          (if isRpmError s then str ''Too Fast!'' else str ''Oops!'')
          (errorMsg s)
          (if isRpmError s then str ''Wait a moment'' else str ''Try Again'')
          HandleReset] @
     shown (appState s = DISPLAY)
       (case weatherData s of
          None \<Rightarrow> []
        | Some d \<Rightarrow>
            [WeatherCard (generatedImage s) d,
             ShareButton d (generatedImage s) (username s) (isDarkBg s),
             SearchAgainButton HandleReset]) @
     shown (\<not> isDailyLimitError s) [AdBanner AD_BANNER_ID]"

fun handlers_of :: "element \<Rightarrow> handler list" where
  "handlers_of (Onboarding h) = [h]"
| "handlers_of (StoragePermission h k) = [h, k]"
| "handlers_of (PrivacyPolicy h) = [h]"
| "handlers_of (UserMenu u h d) = [h]"
| "handlers_of (EntryForm v h k) = [h, k]"
| "handlers_of (GlassyLoader t) = []"
| "handlers_of (TiredMascot h) = [h]"
| "handlers_of (ErrorScreen bg title msg lbl h) = [h]"
| "handlers_of (WeatherCard img d) = []"
| "handlers_of (ShareButton d img u dark) = []"
| "handlers_of (SearchAgainButton h) = [h]"
| "handlers_of (AdBanner a) = []"

text \<open>The callbacks a user can trigger in a state: those bound to a rendered element.\<close>

definition bound_handlers :: "app \<Rightarrow> handler list" where
  "bound_handlers s = concat (map handlers_of (render s))"

fun isTiredMascot :: "element \<Rightarrow> bool" where
  "isTiredMascot (TiredMascot h) = True"
| "isTiredMascot e = False"

fun isErrorScreen :: "element \<Rightarrow> bool" where
  "isErrorScreen (ErrorScreen bg title msg lbl h) = True"
| "isErrorScreen e = False"

section \<open>Reachable states\<close>

text \<open>
  The states the component can be in. A callback runs only if an element bound to it is
  rendered. The callbacks of the three overlays write the user name and the three overlay
  flags only, and are covered by one rule that may set these four fields to any values.
  Each submission may meet different collaborators; \<open>refs\<close> is the set of image
  references the generation collaborator may resolve with.

  Between the awaits of a submission only overlay callbacks are bound (the entry form,
  the error screens and the display screen are not rendered while the state is
  \<open>FETCHING_WEATHER\<close> or \<open>GENERATING_IMAGE\<close>), and they write fields that
  \<open>handleSearch\<close> neither reads nor writes, so a submission is one step.
\<close>

inductive reachable :: "jsstring set \<Rightarrow> app \<Rightarrow> bool" for refs :: "jsstring set" where
  start: "reachable refs initial"
| overlay: "reachable refs s \<Longrightarrow>
     reachable refs (s\<lparr>username := u, showOnboarding := a, showStoragePermission := b,
       showPrivacy := c\<rparr>)"
| change: "reachable refs s \<Longrightarrow> OnCityInputChange \<in> set (bound_handlers s) \<Longrightarrow>
     reachable refs (s\<lparr>cityInput := v\<rparr>)"
| submit: "reachable refs s \<Longrightarrow> HandleSearch \<in> set (bound_handlers s) \<Longrightarrow>
     (\<forall>d u. generateIsometricCity d = Resolved u \<longrightarrow> u \<in> refs) \<Longrightarrow>
     reachable refs (handleSearch getCityWeather generateIsometricCity s)"
| reset: "reachable refs s \<Longrightarrow> HandleReset \<in> set (bound_handlers s) \<Longrightarrow>
     reachable refs (handleReset s)"

section \<open>Observations on a script\<close>

text \<open>The view states a script sets, in order, and the collaborator calls it makes.\<close>

fun state_trace :: "effect list \<Rightarrow> AppState list" where
  "state_trace [] = []"
| "state_trace (SetAppState v # es) = v # state_trace es"
| "state_trace (e # es) = state_trace es"

fun isCall :: "effect \<Rightarrow> bool" where
  "isCall (CallGetCityWeather c) = True"
| "isCall (CallGenerateIsometricCity d) = True"
| "isCall e = False"

definition calls :: "effect list \<Rightarrow> effect list" where
  "calls es = filter isCall es"

section \<open>The submit event\<close>

text \<open>
  \<open>handleSearch\<close> is used in one place only, as the \<open>onSubmit\<close> of the entry form.
  The handler itself does not test the view state: a submit event runs it when the form is
  rendered, and when the form is not rendered there is no element to deliver the event
  to, so no callback runs and no effect is performed.
\<close>

definition submit_script :: "weather_service \<Rightarrow> image_service \<Rightarrow> app \<Rightarrow> effect list" where
  "submit_script getCityWeather generateIsometricCity s =
     (if HandleSearch \<in> set (bound_handlers s)
      then handleSearch_script getCityWeather generateIsometricCity (cityInput s)
      else [])"

definition submit :: "weather_service \<Rightarrow> image_service \<Rightarrow> app \<Rightarrow> app" where
  "submit getCityWeather generateIsometricCity s =
     run s (submit_script getCityWeather generateIsometricCity s)"

text \<open>
  The states in which a script waits for a collaborator: the state at each call, with the
  setters before the call applied. These are the states rendered while a submission is in
  flight.
\<close>

fun awaiting_states :: "app \<Rightarrow> effect list \<Rightarrow> app list" where
  "awaiting_states s [] = []"
| "awaiting_states s (e # es) =
     (if isCall e then [s] else []) @ awaiting_states (apply_effect s e) es"

section \<open>Sample collaborators and inputs\<close>

definition kyoto :: WeatherData where
  "kyoto = \<lparr> temperature = str ''18'', condition = str ''Cloudy'', date = str ''Mon 2 Nov'',
     cityNativeName = str ''Kyoto'', cityName = str ''Kyoto'', iconDescription = str ''cloudy'',
     isDay = True, sources = None \<rparr>"

definition weather_resolves :: weather_service where
  "weather_resolves city = Resolved kyoto"

definition weather_rejects :: "string \<Rightarrow> weather_service" where
  "weather_rejects msg city = Rejected (JsError (Some (str msg)))"

definition image_resolves :: "string \<Rightarrow> image_service" where
  "image_resolves url d = Resolved (str url)"

definition image_rejects :: "string \<Rightarrow> image_service" where
  "image_rejects msg d = Rejected (JsError (Some (str msg)))"

definition typed_kyoto :: app where
  "typed_kyoto = initial\<lparr>cityInput := str ''Kyoto''\<rparr>"

text \<open>The state after typing ``Kyoto'' and a lookup that fails with a rate-limit message.\<close>

definition rate_limited_kyoto :: app where
  "rate_limited_kyoto =
     handleSearch (weather_rejects ''Too many requests'') (image_resolves ''scene.png'') typed_kyoto"

text \<open>
  The states after typing ``Kyoto'' and a submission in which both collaborators succeed,
  the second one with the image reference \<open>scene.png\<close> and with the empty string.
\<close>

definition displayed_kyoto :: app where
  "displayed_kyoto = handleSearch weather_resolves (image_resolves ''scene.png'') typed_kyoto"

definition blank_image_kyoto :: app where
  "blank_image_kyoto = handleSearch weather_resolves (image_resolves []) typed_kyoto"

section \<open>Facts about the string operations\<close>

text \<open>
  \<open>js_includes\<close> is substring containment, and a string trims to the empty string
  exactly when it consists of WhiteSpace and LineTerminator code units only.
\<close>

lemma js_includes_iff: "js_includes s sub \<longleftrightarrow> (\<exists>ps ss. s = ps @ sub @ ss)"
proof (induction s)
  case Nil
  then show ?case by auto
next
  case (Cons c cs)
  show ?case
  proof
    assume "js_includes (c # cs) sub"
    then consider "prefix sub (c # cs)" | "js_includes cs sub" by auto
    then show "\<exists>ps ss. c # cs = ps @ sub @ ss"
    proof cases
      case 1
      then obtain ss where "c # cs = sub @ ss" by (auto simp: prefix_def)
      then have "c # cs = [] @ sub @ ss" by simp
      then show ?thesis by blast
    next
      case 2
      with Cons.IH obtain ps ss where "cs = ps @ sub @ ss" by blast
      then have "c # cs = (c # ps) @ sub @ ss" by simp
      then show ?thesis by blast
    qed
  next
    assume "\<exists>ps ss. c # cs = ps @ sub @ ss"
    then obtain ps ss where eq: "c # cs = ps @ sub @ ss" by blast
    show "js_includes (c # cs) sub"
    proof (cases ps)
      case Nil
      with eq have "prefix sub (c # cs)" by (simp add: prefix_def)
      then show ?thesis by simp
    next
      case (Cons p ps')
      with eq have "cs = ps' @ sub @ ss" by simp
      with Cons.IH have "js_includes cs sub" by blast
      then show ?thesis by simp
    qed
  qed
qed

lemma trim_Nil_iff: "trim s = [] \<longleftrightarrow> (\<forall>c \<in> set s. isTrimmed c)"
proof
  assume "trim s = []"
  then have all: "\<forall>c \<in> set (dropWhile isTrimmed s). isTrimmed c"
    by (simp add: trim_def dropWhile_eq_Nil_conv)
  have "dropWhile isTrimmed s = []"
  proof (rule ccontr)
    assume ne: "dropWhile isTrimmed s \<noteq> []"
    then have "\<not> isTrimmed (hd (dropWhile isTrimmed s))" by (rule hd_dropWhile)
    moreover from ne have "hd (dropWhile isTrimmed s) \<in> set (dropWhile isTrimmed s)" by simp
    ultimately show False using all by blast
  qed
  then show "\<forall>c \<in> set s. isTrimmed c" by (simp add: dropWhile_eq_Nil_conv)
next
  assume "\<forall>c \<in> set s. isTrimmed c"
  then have "dropWhile isTrimmed s = []" by (simp add: dropWhile_eq_Nil_conv)
  then show "trim s = []" by (simp only: trim_def rev.simps dropWhile.simps)
qed

section \<open>What each path of the handlers does to the state\<close>

lemma run_Nil: "run s [] = s"
  by (simp add: run_def)

lemma run_append: "run s (es @ fs) = run (run s es) fs"
  by (simp add: run_def)

lemma run_Cons: "run s (e # es) = run (apply_effect s e) es"
  by (simp add: run_def)

lemma run_catch: "\<exists>m. run s (handleSearch_catch e) = s\<lparr>errorMsg := m, appState := ERROR\<rparr>"
  by (auto simp: handleSearch_catch_def run_Cons run_Nil)

lemma run_catch_missing:
  "message e = Some (str ''MISSING_API_KEY'') \<Longrightarrow>
   run s (handleSearch_catch e) =
     s\<lparr>errorMsg := str ''API Key missing! Please check configuration.'', appState := ERROR\<rparr>"
  by (simp add: handleSearch_catch_def run_Cons run_Nil)

lemma run_catch_denied:
  "message e = Some m \<Longrightarrow> m \<noteq> str ''MISSING_API_KEY'' \<Longrightarrow>
   js_includes m (str ''403'') \<or> js_includes m (str ''Permission Denied'') \<Longrightarrow>
   run s (handleSearch_catch e) =
     s\<lparr>errorMsg := str ''Access Denied. Please check API Key.'', appState := ERROR\<rparr>"
  by (cases m) (auto simp: handleSearch_catch_def run_Cons run_Nil truthy_def str_def)

lemma run_catch_raw:
  "message e = Some m \<Longrightarrow> m \<noteq> str ''MISSING_API_KEY'' \<Longrightarrow> m \<noteq> [] \<Longrightarrow>
   \<not> js_includes m (str ''403'') \<Longrightarrow> \<not> js_includes m (str ''Permission Denied'') \<Longrightarrow>
   run s (handleSearch_catch e) = s\<lparr>errorMsg := m, appState := ERROR\<rparr>"
  by (simp add: handleSearch_catch_def run_Cons run_Nil truthy_def)

lemma run_catch_fallback:
  "message e = None \<or> message e = Some [] \<Longrightarrow>
   run s (handleSearch_catch e) =
     s\<lparr>errorMsg := str ''Unable to retrieve city data. Please try again.'', appState := ERROR\<rparr>"
  by (auto simp: handleSearch_catch_def run_Cons run_Nil truthy_def str_def)

lemma handleSearch_blank:
  "\<not> truthy (trim (cityInput s)) \<Longrightarrow> handleSearch gw gi s = s"
  by (simp add: handleSearch_def handleSearch_script_def run_Nil)

lemma handleSearch_lookup_pending:
  "truthy (trim (cityInput s)) \<Longrightarrow> gw (cityInput s) = Pending \<Longrightarrow>
   handleSearch gw gi s = s\<lparr>errorMsg := [], appState := FETCHING_WEATHER\<rparr>"
  by (simp add: handleSearch_def handleSearch_script_def run_Cons run_Nil)

lemma handleSearch_lookup_rejected:
  "truthy (trim (cityInput s)) \<Longrightarrow> gw (cityInput s) = Rejected e \<Longrightarrow>
   handleSearch gw gi s =
     run (s\<lparr>errorMsg := [], appState := FETCHING_WEATHER\<rparr>) (handleSearch_catch e)"
  by (simp add: handleSearch_def handleSearch_script_def run_Cons)

lemma handleSearch_image_pending:
  "truthy (trim (cityInput s)) \<Longrightarrow> gw (cityInput s) = Resolved d \<Longrightarrow> gi d = Pending \<Longrightarrow>
   handleSearch gw gi s =
     s\<lparr>errorMsg := [], appState := GENERATING_IMAGE, weatherData := Some d\<rparr>"
  by (simp add: handleSearch_def handleSearch_script_def run_Cons run_Nil)

lemma handleSearch_image_rejected:
  "truthy (trim (cityInput s)) \<Longrightarrow> gw (cityInput s) = Resolved d \<Longrightarrow> gi d = Rejected e \<Longrightarrow>
   handleSearch gw gi s =
     run (s\<lparr>errorMsg := [], weatherData := Some d, appState := GENERATING_IMAGE\<rparr>)
       (handleSearch_catch e)"
  by (simp add: handleSearch_def handleSearch_script_def run_Cons)

lemma handleSearch_success:
  "truthy (trim (cityInput s)) \<Longrightarrow> gw (cityInput s) = Resolved d \<Longrightarrow> gi d = Resolved u \<Longrightarrow>
   handleSearch gw gi s =
     s\<lparr>errorMsg := [], appState := DISPLAY, weatherData := Some d, generatedImage := u\<rparr>"
  by (simp add: handleSearch_def handleSearch_script_def run_Cons run_Nil)

lemma handleReset_eq:
  "handleReset s = s\<lparr>appState := IDLE, cityInput := [], weatherData := None, generatedImage := []\<rparr>"
  by (simp add: handleReset_def handleReset_script_def run_Cons run_Nil)

section \<open>Which screen is rendered and which callbacks are bound\<close>

lemma render_tired:
  "appState s = ERROR \<Longrightarrow> isDailyLimitError s \<Longrightarrow>
   TiredMascot HandleReset \<in> set (render s) \<and> filter isErrorScreen (render s) = []"
  by (simp add: render_def shown_def split: option.splits)

lemma render_generic:
  "appState s = ERROR \<Longrightarrow> \<not> isDailyLimitError s \<Longrightarrow>
   filter isErrorScreen (render s) =
     [ErrorScreen (if isRpmError s then str ''bg-amber-50'' else str ''bg-red-50'')
        (if isRpmError s then str ''Too Fast!'' else str ''Oops!'')
        (errorMsg s)
        (if isRpmError s then str ''Wait a moment'' else str ''Try Again'')
        HandleReset] \<and>
   filter isTiredMascot (render s) = []"
  by (simp add: render_def shown_def split: option.splits)

lemma set_shown: "set (shown c es) = (if c then set es else {})"
  by (simp add: shown_def)

lemma HandleSearch_bound_iff: "HandleSearch \<in> set (bound_handlers s) \<longleftrightarrow> appState s = IDLE"
  by (cases "weatherData s") (simp_all add: bound_handlers_def render_def set_shown)

lemma OnCityInputChange_bound: "appState s = IDLE \<Longrightarrow> OnCityInputChange \<in> set (bound_handlers s)"
  by (simp add: bound_handlers_def render_def set_shown)

text \<open>While a submission is in flight only the callbacks of the overlays are bound.\<close>

lemma in_flight_bound_handlers:
  assumes "appState s = FETCHING_WEATHER \<or> appState s = GENERATING_IMAGE"
  shows "set (bound_handlers s) \<subseteq>
    {HandleSaveName, HandleAllowStorage, HandleDenyStorage, HandleOpenPrivacy, HandleClosePrivacy}"
  using assms by (auto simp: bound_handlers_def render_def set_shown)

section \<open>Facts about the sample inputs\<close>

lemma typed_kyoto_truthy: "truthy (trim (cityInput typed_kyoto))"
  by (simp add: typed_kyoto_def initial_def str_def trim_def isTrimmed_def isWhiteSpace_def
      isLineTerminator_def truthy_def)

lemma rate_limited_kyoto_eq:
  "rate_limited_kyoto = typed_kyoto\<lparr>errorMsg := str ''Too many requests'', appState := ERROR\<rparr>"
proof -
  have "handleSearch (weather_rejects ''Too many requests'') (image_resolves ''scene.png'') typed_kyoto =
    run (typed_kyoto\<lparr>errorMsg := [], appState := FETCHING_WEATHER\<rparr>)
      (handleSearch_catch (JsError (Some (str ''Too many requests''))))"
    by (rule handleSearch_lookup_rejected [OF typed_kyoto_truthy]) (simp add: weather_rejects_def)
  also have "\<dots> = typed_kyoto\<lparr>errorMsg := [], appState := FETCHING_WEATHER\<rparr>
      \<lparr>errorMsg := str ''Too many requests'', appState := ERROR\<rparr>"
    by (rule run_catch_raw [where m = "str ''Too many requests''"]) (simp_all add: str_def)
  finally show ?thesis by (simp add: rate_limited_kyoto_def)
qed

section \<open>Submitting outside the entry screen\<close>

text \<open>
  A submit event runs \<open>handleSearch\<close> in the idle state and nothing elsewhere. The
  script of \<open>handleSearch\<close> sets the view state to \<open>FETCHING_WEATHER\<close> before the
  first call of a collaborator, so every state in which it waits, and the state it ends
  in once it has started, is not idle.
\<close>

lemma submit_outside_idle:
  "appState s \<noteq> IDLE \<Longrightarrow> submit_script gw gi s = [] \<and> submit gw gi s = s"
  by (simp add: submit_def submit_script_def HandleSearch_bound_iff run_Nil)

lemma submit_in_idle:
  "appState s = IDLE \<Longrightarrow>
   submit_script gw gi s = handleSearch_script gw gi (cityInput s) \<and>
   submit gw gi s = handleSearch gw gi s"
  by (simp add: submit_def submit_script_def HandleSearch_bound_iff handleSearch_def)

lemma awaiting_catch: "awaiting_states s (handleSearch_catch e) = []"
  by (simp add: handleSearch_catch_def)

lemma awaiting_script:
  "p \<in> set (awaiting_states s (handleSearch_script gw gi c)) \<Longrightarrow>
   appState p = FETCHING_WEATHER \<or> appState p = GENERATING_IMAGE"
  by (auto simp: handleSearch_script_def awaiting_catch split: if_splits promise.splits)

lemma script_nonempty: "handleSearch_script gw gi c \<noteq> [] \<Longrightarrow> truthy (trim c)"
  by (simp add: handleSearch_script_def split: if_splits)

lemma handleSearch_leaves_idle:
  assumes t: "truthy (trim (cityInput s))"
  shows "appState (handleSearch gw gi s) \<noteq> IDLE"
proof (cases "gw (cityInput s)")
  case Pending
  with t show ?thesis by (simp add: handleSearch_lookup_pending)
next
  case (Rejected e)
  from run_catch obtain m where
    "run (s\<lparr>errorMsg := [], appState := FETCHING_WEATHER\<rparr>) (handleSearch_catch e) =
       s\<lparr>errorMsg := [], appState := FETCHING_WEATHER\<rparr>\<lparr>errorMsg := m, appState := ERROR\<rparr>"
    by blast
  with t Rejected show ?thesis by (simp add: handleSearch_lookup_rejected)
next
  case (Resolved d)
  show ?thesis
  proof (cases "gi d")
    case Pending
    with t Resolved show ?thesis by (simp add: handleSearch_image_pending)
  next
    case (Rejected e)
    from run_catch obtain m where
      "run (s\<lparr>errorMsg := [], weatherData := Some d, appState := GENERATING_IMAGE\<rparr>)
         (handleSearch_catch e) =
       s\<lparr>errorMsg := [], weatherData := Some d, appState := GENERATING_IMAGE\<rparr>
         \<lparr>errorMsg := m, appState := ERROR\<rparr>"
      by blast
    with t Resolved Rejected show ?thesis by (simp add: handleSearch_image_rejected)
  next
    case r: (Resolved u)
    with t Resolved show ?thesis by (simp add: handleSearch_success)
  qed
qed

text \<open>
  C1: in every state other than \<open>IDLE\<close>, that is in \<open>FETCHING_WEATHER\<close>,
  \<open>GENERATING_IMAGE\<close>, \<open>DISPLAY\<close> and \<open>ERROR\<close>, a submit leaves the whole state
  as it is and performs no effect, so no lookup starts; in \<open>IDLE\<close> it runs
  \<open>handleSearch\<close>. Only one submission is in flight at a time: in every state in which
  a submission waits for a collaborator, and in the state a started submission ends in, a
  further submit is ignored.
\<close>

theorem submit_ignored_outside_idle:
  fixes s :: app and getCityWeather gw :: weather_service
    and generateIsometricCity gi :: image_service
  shows
  "(appState s \<noteq> IDLE \<longrightarrow>
      submit getCityWeather generateIsometricCity s = s \<and>
      submit_script getCityWeather generateIsometricCity s = []) \<and>
   (appState s = IDLE \<longrightarrow>
      submit getCityWeather generateIsometricCity s =
        handleSearch getCityWeather generateIsometricCity s \<and>
      submit_script getCityWeather generateIsometricCity s =
        handleSearch_script getCityWeather generateIsometricCity (cityInput s)) \<and>
   (\<forall>p \<in> set (awaiting_states s (submit_script getCityWeather generateIsometricCity s)).
      appState p \<noteq> IDLE \<and> submit gw gi p = p \<and> submit_script gw gi p = []) \<and>
   (submit_script getCityWeather generateIsometricCity s \<noteq> [] \<longrightarrow>
      appState (submit getCityWeather generateIsometricCity s) \<noteq> IDLE \<and>
      submit gw gi (submit getCityWeather generateIsometricCity s) =
        submit getCityWeather generateIsometricCity s \<and>
      submit_script gw gi (submit getCityWeather generateIsometricCity s) = [])"
proof (intro conjI impI ballI)
  assume "appState s \<noteq> IDLE"
  then show "submit getCityWeather generateIsometricCity s = s"
    and "submit_script getCityWeather generateIsometricCity s = []"
    by (simp_all add: submit_outside_idle)
next
  assume "appState s = IDLE"
  then show "submit getCityWeather generateIsometricCity s =
      handleSearch getCityWeather generateIsometricCity s"
    and "submit_script getCityWeather generateIsometricCity s =
      handleSearch_script getCityWeather generateIsometricCity (cityInput s)"
    by (simp_all add: submit_in_idle)
next
  fix p
  assume "p \<in> set (awaiting_states s (submit_script getCityWeather generateIsometricCity s))"
  then have "p \<in> set (awaiting_states s
      (handleSearch_script getCityWeather generateIsometricCity (cityInput s)))"
    by (simp add: submit_script_def split: if_splits)
  then have "appState p = FETCHING_WEATHER \<or> appState p = GENERATING_IMAGE"
    by (rule awaiting_script)
  then have n: "appState p \<noteq> IDLE" by auto
  then show "appState p \<noteq> IDLE" .
  from n show "submit gw gi p = p" and "submit_script gw gi p = []"
    by (simp_all add: submit_outside_idle)
next
  assume ne: "submit_script getCityWeather generateIsometricCity s \<noteq> []"
  then have b: "HandleSearch \<in> set (bound_handlers s)"
    and "handleSearch_script getCityWeather generateIsometricCity (cityInput s) \<noteq> []"
    by (simp_all add: submit_script_def split: if_splits)
  then have t: "truthy (trim (cityInput s))" by (simp add: script_nonempty)
  from b have "submit getCityWeather generateIsometricCity s =
      handleSearch getCityWeather generateIsometricCity s"
    by (simp add: submit_def submit_script_def handleSearch_def)
  with handleSearch_leaves_idle [OF t, of getCityWeather generateIsometricCity]
  have n: "appState (submit getCityWeather generateIsometricCity s) \<noteq> IDLE" by simp
  then show "appState (submit getCityWeather generateIsometricCity s) \<noteq> IDLE" .
  from n show "submit gw gi (submit getCityWeather generateIsometricCity s) =
      submit getCityWeather generateIsometricCity s"
    and "submit_script gw gi (submit getCityWeather generateIsometricCity s) = []"
    by (simp_all add: submit_outside_idle)
qed

theorem submit_ignored_outside_idle_witness:
  "appState rate_limited_kyoto = ERROR \<and>
   submit weather_resolves (image_resolves ''scene.png'') rate_limited_kyoto = rate_limited_kyoto \<and>
   submit_script weather_resolves (image_resolves ''scene.png'') rate_limited_kyoto = [] \<and>
   submit weather_resolves (image_resolves ''scene.png'')
     (typed_kyoto\<lparr>errorMsg := [], appState := FETCHING_WEATHER\<rparr>) =
     typed_kyoto\<lparr>errorMsg := [], appState := FETCHING_WEATHER\<rparr> \<and>
   appState (submit (weather_rejects ''Too many requests'') (image_resolves ''scene.png'')
     typed_kyoto) \<noteq> IDLE"
proof -
  have e: "appState rate_limited_kyoto = ERROR" by (simp add: rate_limited_kyoto_eq)
  have i: "appState typed_kyoto = IDLE" by (simp add: typed_kyoto_def initial_def)
  have sc: "submit_script (weather_rejects ''Too many requests'') (image_resolves ''scene.png'')
      typed_kyoto =
    handleSearch_script (weather_rejects ''Too many requests'') (image_resolves ''scene.png'')
      (cityInput typed_kyoto)"
    using i by (simp add: submit_in_idle)
  have ne: "submit_script (weather_rejects ''Too many requests'') (image_resolves ''scene.png'')
      typed_kyoto \<noteq> []"
    using typed_kyoto_truthy by (simp add: sc handleSearch_script_def)
  have p: "typed_kyoto\<lparr>errorMsg := [], appState := FETCHING_WEATHER\<rparr> \<in>
    set (awaiting_states typed_kyoto
      (submit_script (weather_rejects ''Too many requests'') (image_resolves ''scene.png'')
        typed_kyoto))"
    using typed_kyoto_truthy
    by (simp add: sc handleSearch_script_def weather_rejects_def awaiting_catch)
  from submit_ignored_outside_idle
    [where s = rate_limited_kyoto and getCityWeather = weather_resolves
       and generateIsometricCity = "image_resolves ''scene.png''"] e
  have 1: "submit weather_resolves (image_resolves ''scene.png'') rate_limited_kyoto =
      rate_limited_kyoto \<and>
    submit_script weather_resolves (image_resolves ''scene.png'') rate_limited_kyoto = []"
    by simp
  from submit_ignored_outside_idle
    [where s = typed_kyoto and getCityWeather = "weather_rejects ''Too many requests''"
       and generateIsometricCity = "image_resolves ''scene.png''"
       and gw = weather_resolves and gi = "image_resolves ''scene.png''"] p ne
  have 2: "submit weather_resolves (image_resolves ''scene.png'')
     (typed_kyoto\<lparr>errorMsg := [], appState := FETCHING_WEATHER\<rparr>) =
     typed_kyoto\<lparr>errorMsg := [], appState := FETCHING_WEATHER\<rparr> \<and>
   appState (submit (weather_rejects ''Too many requests'') (image_resolves ''scene.png'')
     typed_kyoto) \<noteq> IDLE"
    by blast
  from e 1 2 show ?thesis by blast
qed

section \<open>Classification of failures\<close>

text \<open>
  The fixed strings of the classification do not contain one another's markers, a string
  that contains a non-empty marker is not empty, and a failure at either await runs the
  same \<open>catch\<close> block.
\<close>

lemma missing_key_includes_none:
  "\<not> js_includes (str ''MISSING_API_KEY'') (str ''Daily free limit reached'')"
  "\<not> js_includes (str ''MISSING_API_KEY'') (str ''Too many requests'')"
  "\<not> js_includes (str ''MISSING_API_KEY'') (str ''403'')"
  "\<not> js_includes (str ''MISSING_API_KEY'') (str ''Permission Denied'')"
  by (simp_all add: str_def)

lemma access_denied_includes_none:
  "\<not> js_includes (str ''Access Denied. Please check API Key.'') (str ''Daily free limit reached'')"
  "\<not> js_includes (str ''Access Denied. Please check API Key.'') (str ''Too many requests'')"
  by (simp_all add: str_def)

lemma includes_nonempty: "js_includes m (str (c # cs)) \<Longrightarrow> m \<noteq> []"
  by (auto simp: str_def)

lemma handleSearch_failure:
  assumes "truthy (trim (cityInput s))"
    and "gw (cityInput s) = Rejected e \<or> (gw (cityInput s) = Resolved d \<and> gi d = Rejected e)"
  shows "\<exists>s0. handleSearch gw gi s = run s0 (handleSearch_catch e)"
  using assms handleSearch_lookup_rejected [of s gw e gi] handleSearch_image_rejected [of s gw d gi e]
  by auto

text \<open>All definitions needed to evaluate a handler and the rendering on a sample input.\<close>

lemmas sample_defs =
  handleSearch_def handleSearch_script_def handleSearch_catch_def run_def
  weather_rejects_def weather_resolves_def image_resolves_def image_rejects_def
  typed_kyoto_def initial_def render_def shown_def isDailyLimitError_def isRpmError_def
  isModalOpen_def isDarkBg_def str_def trim_def isTrimmed_def isWhiteSpace_def
  isLineTerminator_def truthy_def

subsection \<open>Daily quota\<close>

text \<open>
  C2, as stated, fails: a lookup failure whose message contains both
  ``Daily free limit reached'' and ``403'' is classified as access denied first, the
  message is replaced by the fixed access-denied string, and the generic error screen is
  rendered, not the tired screen.
\<close>

theorem daily_limit_with_403_shows_generic_screen:
  "js_includes (str ''403 Daily free limit reached'') (str ''Daily free limit reached'') \<and>
   appState (handleSearch (weather_rejects ''403 Daily free limit reached'')
       (image_resolves ''scene.png'') typed_kyoto) = ERROR \<and>
   filter isTiredMascot (render (handleSearch (weather_rejects ''403 Daily free limit reached'')
       (image_resolves ''scene.png'') typed_kyoto)) = [] \<and>
   filter isErrorScreen (render (handleSearch (weather_rejects ''403 Daily free limit reached'')
       (image_resolves ''scene.png'') typed_kyoto)) =
     [ErrorScreen (str ''bg-red-50'') (str ''Oops!'') (str ''Access Denied. Please check API Key.'')
        (str ''Try Again'') HandleReset]"
  by (simp add: sample_defs)


text \<open>
  C2, amended: for every failure of the weather lookup whose message contains
  ``Daily free limit reached'' and contains neither ``403'' nor ``Permission Denied'', the
  resulting state is \<open>ERROR\<close> with the message kept as it is, the tired screen is
  rendered and the generic error screen is not.
\<close>

theorem daily_limit_lookup_failure_shows_tired:
  assumes "truthy (trim (cityInput s))"
    and "getCityWeather (cityInput s) = Rejected (JsError (Some m))"
    and "js_includes m (str ''Daily free limit reached'')"
    and "\<not> js_includes m (str ''403'')"
    and "\<not> js_includes m (str ''Permission Denied'')"
    and "s' = handleSearch getCityWeather generateIsometricCity s"
  shows "appState s' = ERROR \<and> errorMsg s' = m \<and>
         TiredMascot HandleReset \<in> set (render s') \<and> filter isErrorScreen (render s') = []"
proof -
  have ne: "m \<noteq> str ''MISSING_API_KEY''"
    using assms(3) missing_key_includes_none(1) by blast
  have nn: "m \<noteq> []" using assms(3) by (rule includes_nonempty)
  have "s' = run (s\<lparr>errorMsg := [], appState := FETCHING_WEATHER\<rparr>)
               (handleSearch_catch (JsError (Some m)))"
    using assms(1,2,6) by (simp add: handleSearch_lookup_rejected)
  also have "\<dots> = s\<lparr>errorMsg := [], appState := FETCHING_WEATHER\<rparr>\<lparr>errorMsg := m, appState := ERROR\<rparr>"
    using ne nn assms(4,5) by (simp add: run_catch_raw)
  finally have eq: "s' = s\<lparr>errorMsg := m, appState := ERROR\<rparr>" by simp
  then have a: "appState s' = ERROR" and b: "errorMsg s' = m" by simp_all
  from b assms(3) have "isDailyLimitError s'" by (simp add: isDailyLimitError_def)
  with a have "TiredMascot HandleReset \<in> set (render s') \<and> filter isErrorScreen (render s') = []"
    by (rule render_tired)
  with a b show ?thesis by blast
qed

theorem daily_limit_lookup_failure_shows_tired_witness:
  "appState (handleSearch (weather_rejects ''Daily free limit reached. Come back tomorrow.'')
       (image_resolves ''scene.png'') typed_kyoto) = ERROR \<and>
   TiredMascot HandleReset \<in> set (render (handleSearch
       (weather_rejects ''Daily free limit reached. Come back tomorrow.'')
       (image_resolves ''scene.png'') typed_kyoto)) \<and>
   filter isErrorScreen (render (handleSearch
       (weather_rejects ''Daily free limit reached. Come back tomorrow.'')
       (image_resolves ''scene.png'') typed_kyoto)) = []"
proof -
  have 1: "weather_rejects ''Daily free limit reached. Come back tomorrow.'' (cityInput typed_kyoto) =
      Rejected (JsError (Some (str ''Daily free limit reached. Come back tomorrow.'')))"
    by (simp add: weather_rejects_def)
  have 2: "js_includes (str ''Daily free limit reached. Come back tomorrow.'') (str ''Daily free limit reached'')"
    by (simp add: str_def)
  have 3: "\<not> js_includes (str ''Daily free limit reached. Come back tomorrow.'') (str ''403'')"
    by (simp add: str_def)
  have 4: "\<not> js_includes (str ''Daily free limit reached. Come back tomorrow.'') (str ''Permission Denied'')"
    by (simp add: str_def)
  show ?thesis
    using daily_limit_lookup_failure_shows_tired
      [where s = typed_kyoto
         and getCityWeather = "weather_rejects ''Daily free limit reached. Come back tomorrow.''"
         and generateIsometricCity = "image_resolves ''scene.png''"
         and m = "str ''Daily free limit reached. Come back tomorrow.''",
       OF typed_kyoto_truthy 1 2 3 4 refl]
    by simp
qed

subsection \<open>Missing credential\<close>

text \<open>
  C3, as stated, fails: the missing-credential branch compares the whole message with
  \<open>MISSING_API_KEY\<close> by strict equality, it does not search for the marker. A message
  that contains the marker inside a longer text falls through to the raw-message branch.
\<close>

theorem marker_inside_longer_message_kept_raw:
  "js_includes (str ''Error: MISSING_API_KEY'') (str ''MISSING_API_KEY'') \<and>
   appState (handleSearch (weather_rejects ''Error: MISSING_API_KEY'')
       (image_resolves ''scene.png'') typed_kyoto) = ERROR \<and>
   errorMsg (handleSearch (weather_rejects ''Error: MISSING_API_KEY'')
       (image_resolves ''scene.png'') typed_kyoto) = str ''Error: MISSING_API_KEY'' \<and>
   errorMsg (handleSearch (weather_rejects ''Error: MISSING_API_KEY'')
       (image_resolves ''scene.png'') typed_kyoto) \<noteq>
     str ''API Key missing! Please check configuration.''"
  by (simp add: sample_defs)

text \<open>
  C3, amended: for every failure, of the lookup or of the generation, whose message is
  exactly \<open>MISSING_API_KEY\<close>, the error message becomes the fixed configuration-error
  message ``API Key missing! Please check configuration.'' and the state moves to
  \<open>ERROR\<close>.
\<close>

theorem missing_key_exact_message:
  assumes "truthy (trim (cityInput s))"
    and "getCityWeather (cityInput s) = Rejected e \<or>
         (getCityWeather (cityInput s) = Resolved d \<and> generateIsometricCity d = Rejected e)"
    and "message e = Some (str ''MISSING_API_KEY'')"
    and "s' = handleSearch getCityWeather generateIsometricCity s"
  shows "appState s' = ERROR \<and>
         errorMsg s' = str ''API Key missing! Please check configuration.''"
proof -
  obtain s0 where "handleSearch getCityWeather generateIsometricCity s =
      run s0 (handleSearch_catch e)"
    using handleSearch_failure
      [where gw = getCityWeather and gi = generateIsometricCity and s = s and e = e and d = d,
       OF assms(1,2)]
    by blast
  with assms(4) have "s' = run s0 (handleSearch_catch e)" by simp
  also have "\<dots> = s0\<lparr>errorMsg := str ''API Key missing! Please check configuration.'',
       appState := ERROR\<rparr>"
    using assms(3) by (rule run_catch_missing)
  finally show ?thesis by simp
qed

theorem missing_key_exact_message_witness:
  "appState (handleSearch weather_resolves (image_rejects ''MISSING_API_KEY'') typed_kyoto) = ERROR \<and>
   errorMsg (handleSearch weather_resolves (image_rejects ''MISSING_API_KEY'') typed_kyoto) =
     str ''API Key missing! Please check configuration.''"
proof -
  have 1: "weather_resolves (cityInput typed_kyoto) = Rejected (JsError (Some (str ''MISSING_API_KEY''))) \<or>
      (weather_resolves (cityInput typed_kyoto) = Resolved kyoto \<and>
       image_rejects ''MISSING_API_KEY'' kyoto = Rejected (JsError (Some (str ''MISSING_API_KEY''))))"
    by (simp add: weather_resolves_def image_rejects_def)
  have 2: "message (JsError (Some (str ''MISSING_API_KEY''))) = Some (str ''MISSING_API_KEY'')"
    by simp
  show ?thesis
    using missing_key_exact_message
      [where s = typed_kyoto and getCityWeather = weather_resolves
         and generateIsometricCity = "image_rejects ''MISSING_API_KEY''"
         and d = kyoto and e = "JsError (Some (str ''MISSING_API_KEY''))",
       OF typed_kyoto_truthy 1 2 refl]
    by simp
qed

subsection \<open>Rate limit\<close>

text \<open>
  C7, as stated, fails in two ways. A lookup failure whose message contains
  ``Too many requests'' and ``403'' is shown with the default styling and the
  access-denied text; one whose message also contains ``Daily free limit reached'' is
  shown on the tired screen.
\<close>

theorem rate_limit_overridden_by_other_markers:
  "js_includes (str ''403 Too many requests'') (str ''Too many requests'') \<and>
   filter isErrorScreen (render (handleSearch (weather_rejects ''403 Too many requests'')
       (image_resolves ''scene.png'') typed_kyoto)) =
     [ErrorScreen (str ''bg-red-50'') (str ''Oops!'') (str ''Access Denied. Please check API Key.'')
        (str ''Try Again'') HandleReset] \<and>
   js_includes (str ''Too many requests. Daily free limit reached'') (str ''Too many requests'') \<and>
   filter isErrorScreen (render (handleSearch
       (weather_rejects ''Too many requests. Daily free limit reached'')
       (image_resolves ''scene.png'') typed_kyoto)) = [] \<and>
   filter isTiredMascot (render (handleSearch
       (weather_rejects ''Too many requests. Daily free limit reached'')
       (image_resolves ''scene.png'') typed_kyoto)) = [TiredMascot HandleReset]"
  by (simp add: sample_defs)

text \<open>
  C7, amended: for every failure of the lookup whose message contains
  ``Too many requests'' and none of ``403'', ``Permission Denied'' and
  ``Daily free limit reached'', the state is \<open>ERROR\<close>, the generic error screen is
  rendered with the rate-limit background, the heading ``Too Fast!'', the raw message and
  the button ``Wait a moment'', and the tired screen is not rendered.
\<close>

theorem rate_limit_lookup_failure_styling:
  assumes "truthy (trim (cityInput s))"
    and "getCityWeather (cityInput s) = Rejected (JsError (Some m))"
    and "js_includes m (str ''Too many requests'')"
    and "\<not> js_includes m (str ''403'')"
    and "\<not> js_includes m (str ''Permission Denied'')"
    and "\<not> js_includes m (str ''Daily free limit reached'')"
    and "s' = handleSearch getCityWeather generateIsometricCity s"
  shows "appState s' = ERROR \<and>
         filter isErrorScreen (render s') =
           [ErrorScreen (str ''bg-amber-50'') (str ''Too Fast!'') m (str ''Wait a moment'')
              HandleReset] \<and>
         filter isTiredMascot (render s') = []"
proof -
  have ne: "m \<noteq> str ''MISSING_API_KEY''"
    using assms(3) missing_key_includes_none(2) by blast
  have nn: "m \<noteq> []" using assms(3) by (rule includes_nonempty)
  have "s' = run (s\<lparr>errorMsg := [], appState := FETCHING_WEATHER\<rparr>)
               (handleSearch_catch (JsError (Some m)))"
    using assms(1,2,7) by (simp add: handleSearch_lookup_rejected)
  also have "\<dots> = s\<lparr>errorMsg := [], appState := FETCHING_WEATHER\<rparr>\<lparr>errorMsg := m, appState := ERROR\<rparr>"
    using ne nn assms(4,5) by (simp add: run_catch_raw)
  finally have eq: "s' = s\<lparr>errorMsg := m, appState := ERROR\<rparr>" by simp
  then have a: "appState s' = ERROR" and b: "errorMsg s' = m" by simp_all
  from b assms(6) have d: "\<not> isDailyLimitError s'" by (simp add: isDailyLimitError_def)
  from b assms(3) have r: "isRpmError s'" by (simp add: isRpmError_def)
  from render_generic [OF a d] r b a show ?thesis by simp
qed

theorem rate_limit_lookup_failure_styling_witness:
  "filter isErrorScreen (render rate_limited_kyoto) =
     [ErrorScreen (str ''bg-amber-50'') (str ''Too Fast!'') (str ''Too many requests'')
        (str ''Wait a moment'') HandleReset] \<and>
   filter isTiredMascot (render rate_limited_kyoto) = []"
proof -
  have 1: "weather_rejects ''Too many requests'' (cityInput typed_kyoto) =
      Rejected (JsError (Some (str ''Too many requests'')))"
    by (simp add: weather_rejects_def)
  have 2: "js_includes (str ''Too many requests'') (str ''Too many requests'')"
    by (simp add: str_def)
  have 3: "\<not> js_includes (str ''Too many requests'') (str ''403'')"
    by (simp add: str_def)
  have 4: "\<not> js_includes (str ''Too many requests'') (str ''Permission Denied'')"
    by (simp add: str_def)
  have 5: "\<not> js_includes (str ''Too many requests'') (str ''Daily free limit reached'')"
    by (simp add: str_def)
  show ?thesis
    using rate_limit_lookup_failure_styling
      [where s = typed_kyoto and getCityWeather = "weather_rejects ''Too many requests''"
         and generateIsometricCity = "image_resolves ''scene.png''"
         and m = "str ''Too many requests''",
       OF typed_kyoto_truthy 1 2 3 4 5 refl]
    by (simp add: rate_limited_kyoto_def)
qed

section \<open>The display state\<close>

text \<open>
  The only path of \<open>handleSearch\<close> that ends in \<open>DISPLAY\<close> is the one on which
  both collaborators resolve, and in every reachable display state the weather record is
  set and the image reference is one the generation collaborator resolved with.
\<close>

lemma displayed_kyoto_eq:
  "displayed_kyoto = typed_kyoto\<lparr>errorMsg := [], appState := DISPLAY, weatherData := Some kyoto,
     generatedImage := str ''scene.png''\<rparr>"
  unfolding displayed_kyoto_def
  by (rule handleSearch_success [OF typed_kyoto_truthy])
     (simp_all add: weather_resolves_def image_resolves_def)

lemma blank_image_kyoto_eq:
  "blank_image_kyoto = typed_kyoto\<lparr>errorMsg := [], appState := DISPLAY, weatherData := Some kyoto,
     generatedImage := []\<rparr>"
proof -
  have "blank_image_kyoto = typed_kyoto\<lparr>errorMsg := [], appState := DISPLAY,
      weatherData := Some kyoto, generatedImage := str []\<rparr>"
    unfolding blank_image_kyoto_def
    by (rule handleSearch_success [OF typed_kyoto_truthy])
       (simp_all add: weather_resolves_def image_resolves_def)
  then show ?thesis by (simp add: str_def)
qed

lemma reachable_typed_kyoto: "reachable refs typed_kyoto"
  unfolding typed_kyoto_def
  by (rule reachable.change [OF reachable.start]) (simp add: OnCityInputChange_bound initial_def)

lemma handleSearch_display:
  assumes "appState (handleSearch gw gi s) = DISPLAY"
  shows "handleSearch gw gi s = s \<or>
    (\<exists>d u. gw (cityInput s) = Resolved d \<and> gi d = Resolved u \<and>
       weatherData (handleSearch gw gi s) = Some d \<and> generatedImage (handleSearch gw gi s) = u)"
proof (cases "truthy (trim (cityInput s))")
  case False
  then show ?thesis by (simp add: handleSearch_blank)
next
  case t: True
  show ?thesis
  proof (cases "gw (cityInput s)")
    case Pending
    with t assms show ?thesis by (simp add: handleSearch_lookup_pending)
  next
    case (Rejected e)
    from run_catch obtain m where
      "run (s\<lparr>errorMsg := [], appState := FETCHING_WEATHER\<rparr>) (handleSearch_catch e) =
         s\<lparr>errorMsg := [], appState := FETCHING_WEATHER\<rparr>\<lparr>errorMsg := m, appState := ERROR\<rparr>"
      by blast
    with t Rejected assms show ?thesis by (simp add: handleSearch_lookup_rejected)
  next
    case (Resolved d)
    show ?thesis
    proof (cases "gi d")
      case Pending
      with t Resolved assms show ?thesis by (simp add: handleSearch_image_pending)
    next
      case (Rejected e)
      from run_catch obtain m where
        "run (s\<lparr>errorMsg := [], weatherData := Some d, appState := GENERATING_IMAGE\<rparr>)
           (handleSearch_catch e) =
         s\<lparr>errorMsg := [], weatherData := Some d, appState := GENERATING_IMAGE\<rparr>
           \<lparr>errorMsg := m, appState := ERROR\<rparr>"
        by blast
      with t Resolved Rejected assms show ?thesis by (simp add: handleSearch_image_rejected)
    next
      case r: (Resolved u)
      with t Resolved show ?thesis by (simp add: handleSearch_success)
    qed
  qed
qed

lemma reachable_display_inv:
  "reachable refs s \<Longrightarrow> appState s = DISPLAY \<longrightarrow> weatherData s \<noteq> None \<and> generatedImage s \<in> refs"
proof (induction rule: reachable.induct)
  case start
  show ?case by (simp add: initial_def)
next
  case (overlay s u a b c)
  then show ?case by simp
next
  case (change s v)
  then show ?case by simp
next
  case (submit s generateIsometricCity getCityWeather)
  show ?case
  proof
    assume d: "appState (handleSearch getCityWeather generateIsometricCity s) = DISPLAY"
    from handleSearch_display [OF d]
    show "weatherData (handleSearch getCityWeather generateIsometricCity s) \<noteq> None \<and>
          generatedImage (handleSearch getCityWeather generateIsometricCity s) \<in> refs"
    proof
      assume "handleSearch getCityWeather generateIsometricCity s = s"
      with d submit.IH show ?thesis by simp
    next
      assume "\<exists>d u. getCityWeather (cityInput s) = Resolved d \<and> generateIsometricCity d = Resolved u \<and>
         weatherData (handleSearch getCityWeather generateIsometricCity s) = Some d \<and>
         generatedImage (handleSearch getCityWeather generateIsometricCity s) = u"
      with submit.hyps(3) show ?thesis by auto
    qed
  qed
next
  case (reset s)
  show ?case by (simp add: handleReset_eq)
qed

text \<open>
  C6, as stated, fails on the image reference: the controller stores whatever string the
  generation collaborator resolves with and does not check it. With a collaborator that
  resolves with the empty string, the value that also stands for ``no image'', the display
  state is reached with an empty image reference.
\<close>

theorem display_with_empty_image_reference:
  "reachable UNIV blank_image_kyoto \<and> appState blank_image_kyoto = DISPLAY \<and>
   generatedImage blank_image_kyoto = []"
proof -
  have "reachable UNIV (handleSearch weather_resolves (image_resolves []) typed_kyoto)"
    by (rule reachable.submit [OF reachable_typed_kyoto])
       (simp_all add: HandleSearch_bound_iff typed_kyoto_def initial_def)
  then have "reachable UNIV blank_image_kyoto" by (simp add: blank_image_kyoto_def)
  then show ?thesis by (simp add: blank_image_kyoto_eq)
qed


text \<open>
  C6, amended: in every reachable state, if the view state is \<open>DISPLAY\<close> then a
  weather record is stored and the image reference is a string the generation
  collaborator resolved with, hence non-empty whenever the collaborator never resolves
  with the empty string; after a successful lookup followed by a successful generation
  the state is \<open>DISPLAY\<close> with the fetched record and the returned reference stored.
\<close>

theorem display_has_record_and_collaborator_image:
  fixes s t :: app and getCityWeather :: weather_service and generateIsometricCity :: image_service
  defines "t' \<equiv> handleSearch getCityWeather generateIsometricCity t"
  shows
  "(reachable refs s \<and> appState s = DISPLAY \<longrightarrow>
      weatherData s \<noteq> None \<and> generatedImage s \<in> refs \<and>
      ([] \<notin> refs \<longrightarrow> generatedImage s \<noteq> [])) \<and>
   (truthy (trim (cityInput t)) \<and> getCityWeather (cityInput t) = Resolved d \<and>
      generateIsometricCity d = Resolved u \<longrightarrow>
      appState t' = DISPLAY \<and> weatherData t' = Some d \<and> generatedImage t' = u)"
proof (intro conjI impI)
  assume h: "reachable refs s \<and> appState s = DISPLAY"
  with reachable_display_inv [of refs s]
  show "weatherData s \<noteq> None" and i: "generatedImage s \<in> refs" by blast+
  assume "[] \<notin> refs"
  with i show "generatedImage s \<noteq> []" by metis
next
  assume "truthy (trim (cityInput t)) \<and> getCityWeather (cityInput t) = Resolved d \<and>
      generateIsometricCity d = Resolved u"
  then have "t' = t\<lparr>errorMsg := [], appState := DISPLAY, weatherData := Some d,
      generatedImage := u\<rparr>"
    by (simp add: t'_def handleSearch_success)
  then show "appState t' = DISPLAY" and "weatherData t' = Some d" and "generatedImage t' = u"
    by simp_all
qed

theorem display_has_record_and_collaborator_image_witness:
  "reachable {str ''scene.png''} displayed_kyoto \<and> appState displayed_kyoto = DISPLAY \<and>
   weatherData displayed_kyoto = Some kyoto \<and> generatedImage displayed_kyoto \<noteq> []"
proof -
  have "reachable {str ''scene.png''}
      (handleSearch weather_resolves (image_resolves ''scene.png'') typed_kyoto)"
    by (rule reachable.submit [OF reachable_typed_kyoto])
       (simp_all add: HandleSearch_bound_iff typed_kyoto_def initial_def image_resolves_def)
  then have r: "reachable {str ''scene.png''} displayed_kyoto" by (simp add: displayed_kyoto_def)
  have a: "appState displayed_kyoto = DISPLAY" by (simp add: displayed_kyoto_eq)
  have e: "[] \<notin> {str ''scene.png''}" by (simp add: str_def)
  have w: "weatherData displayed_kyoto = Some kyoto" by (simp add: displayed_kyoto_eq)
  from display_has_record_and_collaborator_image
    [where refs = "{str ''scene.png''}" and s = displayed_kyoto and t = typed_kyoto
       and getCityWeather = weather_resolves and generateIsometricCity = "image_resolves ''scene.png''"
       and d = kyoto and u = "str ''scene.png''"] r a e
  have "generatedImage displayed_kyoto \<noteq> []" by blast
  with r a w show ?thesis by blast
qed

section \<open>Priority of the classification\<close>

text \<open>
  C10: the \<open>catch\<close> block tests the exact missing-credential message first, then the
  substrings ``403'' and ``Permission Denied'', and otherwise keeps the raw message. The
  access-denied branch replaces the message by a fixed string, so a failure, of the
  lookup or of the generation, whose message contains ``403'' together with
  ``Daily free limit reached'' is shown on the generic error screen with the
  access-denied text and the default styling, and the tired screen is not rendered.
\<close>

theorem classification_priority_order:
  fixes e :: js_error and m :: jsstring and s t :: app
    and getCityWeather :: weather_service and generateIsometricCity :: image_service
  defines "s' \<equiv> handleSearch getCityWeather generateIsometricCity s"
  shows
  "(message e = Some (str ''MISSING_API_KEY'') \<longrightarrow>
      run t (handleSearch_catch e) =
        t\<lparr>errorMsg := str ''API Key missing! Please check configuration.'', appState := ERROR\<rparr>) \<and>
   (message e = Some m \<and> m \<noteq> str ''MISSING_API_KEY'' \<and>
      (js_includes m (str ''403'') \<or> js_includes m (str ''Permission Denied'')) \<longrightarrow>
      run t (handleSearch_catch e) =
        t\<lparr>errorMsg := str ''Access Denied. Please check API Key.'', appState := ERROR\<rparr>) \<and>
   (message e = Some m \<and> m \<noteq> str ''MISSING_API_KEY'' \<and> m \<noteq> [] \<and>
      \<not> js_includes m (str ''403'') \<and> \<not> js_includes m (str ''Permission Denied'') \<longrightarrow>
      run t (handleSearch_catch e) = t\<lparr>errorMsg := m, appState := ERROR\<rparr>) \<and>
   (truthy (trim (cityInput s)) \<and>
      (getCityWeather (cityInput s) = Rejected e \<or>
       (getCityWeather (cityInput s) = Resolved d \<and> generateIsometricCity d = Rejected e)) \<and>
      message e = Some m \<and>
      js_includes m (str ''403'') \<and> js_includes m (str ''Daily free limit reached'') \<longrightarrow>
      appState s' = ERROR \<and>
      errorMsg s' = str ''Access Denied. Please check API Key.'' \<and>
      filter isErrorScreen (render s') =
        [ErrorScreen (str ''bg-red-50'') (str ''Oops!'')
           (str ''Access Denied. Please check API Key.'') (str ''Try Again'') HandleReset] \<and>
      filter isTiredMascot (render s') = [])"
proof (intro conjI impI)
  assume "message e = Some (str ''MISSING_API_KEY'')"
  then show "run t (handleSearch_catch e) =
      t\<lparr>errorMsg := str ''API Key missing! Please check configuration.'', appState := ERROR\<rparr>"
    by (rule run_catch_missing)
next
  assume "message e = Some m \<and> m \<noteq> str ''MISSING_API_KEY'' \<and>
      (js_includes m (str ''403'') \<or> js_includes m (str ''Permission Denied''))"
  then show "run t (handleSearch_catch e) =
      t\<lparr>errorMsg := str ''Access Denied. Please check API Key.'', appState := ERROR\<rparr>"
    by (simp add: run_catch_denied)
next
  assume "message e = Some m \<and> m \<noteq> str ''MISSING_API_KEY'' \<and> m \<noteq> [] \<and>
      \<not> js_includes m (str ''403'') \<and> \<not> js_includes m (str ''Permission Denied'')"
  then show "run t (handleSearch_catch e) = t\<lparr>errorMsg := m, appState := ERROR\<rparr>"
    by (simp add: run_catch_raw)
next
  assume h: "truthy (trim (cityInput s)) \<and>
      (getCityWeather (cityInput s) = Rejected e \<or>
       (getCityWeather (cityInput s) = Resolved d \<and> generateIsometricCity d = Rejected e)) \<and>
      message e = Some m \<and>
      js_includes m (str ''403'') \<and> js_includes m (str ''Daily free limit reached'')"
  then have t: "truthy (trim (cityInput s))"
    and f: "getCityWeather (cityInput s) = Rejected e \<or>
       (getCityWeather (cityInput s) = Resolved d \<and> generateIsometricCity d = Rejected e)"
    and msg: "message e = Some m" and i403: "js_includes m (str ''403'')"
    by blast+
  have ne: "m \<noteq> str ''MISSING_API_KEY''"
    using i403 missing_key_includes_none(3) by blast
  obtain s0 where "handleSearch getCityWeather generateIsometricCity s =
      run s0 (handleSearch_catch e)"
    using handleSearch_failure
      [where gw = getCityWeather and gi = generateIsometricCity and s = s and e = e and d = d,
       OF t f]
    by blast
  then have "s' = run s0 (handleSearch_catch e)" by (simp add: s'_def)
  also have "\<dots> = s0\<lparr>errorMsg := str ''Access Denied. Please check API Key.'', appState := ERROR\<rparr>"
    using msg ne i403 by (simp add: run_catch_denied)
  finally have eq: "s' = s0\<lparr>errorMsg := str ''Access Denied. Please check API Key.'',
      appState := ERROR\<rparr>" .
  then have a: "appState s' = ERROR"
    and b: "errorMsg s' = str ''Access Denied. Please check API Key.''" by simp_all
  from b have nd: "\<not> isDailyLimitError s'"
    by (simp add: isDailyLimitError_def access_denied_includes_none)
  from b have nr: "\<not> isRpmError s'"
    by (simp add: isRpmError_def access_denied_includes_none)
  from render_generic [OF a nd] nr b
  have "filter isErrorScreen (render s') =
        [ErrorScreen (str ''bg-red-50'') (str ''Oops!'')
           (str ''Access Denied. Please check API Key.'') (str ''Try Again'') HandleReset] \<and>
      filter isTiredMascot (render s') = []" by simp
  with a b show "appState s' = ERROR" 
    and "errorMsg s' = str ''Access Denied. Please check API Key.''"
    and "filter isErrorScreen (render s') =
        [ErrorScreen (str ''bg-red-50'') (str ''Oops!'')
           (str ''Access Denied. Please check API Key.'') (str ''Try Again'') HandleReset]"
    and "filter isTiredMascot (render s') = []"
    by blast+
qed


theorem classification_priority_order_witness:
  "run initial (handleSearch_catch (JsError (Some (str ''403 Daily free limit reached'')))) =
     initial\<lparr>errorMsg := str ''Access Denied. Please check API Key.'', appState := ERROR\<rparr> \<and>
   errorMsg (handleSearch (weather_rejects ''403 Daily free limit reached'')
       (image_resolves ''scene.png'') typed_kyoto) = str ''Access Denied. Please check API Key.'' \<and>
   filter isTiredMascot (render (handleSearch (weather_rejects ''403 Daily free limit reached'')
       (image_resolves ''scene.png'') typed_kyoto)) = []"
proof -
  have 1: "message (JsError (Some (str ''403 Daily free limit reached''))) =
      Some (str ''403 Daily free limit reached'')" by simp
  have 2: "str ''403 Daily free limit reached'' \<noteq> str ''MISSING_API_KEY''"
    by (simp add: str_def)
  have 3: "js_includes (str ''403 Daily free limit reached'') (str ''403'')"
    by (simp add: str_def)
  have 4: "js_includes (str ''403 Daily free limit reached'') (str ''Daily free limit reached'')"
    by (simp add: str_def)
  have 5: "weather_rejects ''403 Daily free limit reached'' (cityInput typed_kyoto) =
      Rejected (JsError (Some (str ''403 Daily free limit reached'')))"
    by (simp add: weather_rejects_def)
  from classification_priority_order
    [where e = "JsError (Some (str ''403 Daily free limit reached''))"
       and m = "str ''403 Daily free limit reached''" and t = initial and s = typed_kyoto
       and getCityWeather = "weather_rejects ''403 Daily free limit reached''"
       and generateIsometricCity = "image_resolves ''scene.png''" and d = kyoto]
    1 2 3 4 5 typed_kyoto_truthy
  show ?thesis by blast
qed

section \<open>Blank input\<close>

text \<open>
  C4: for every city input that is empty or consists of white space and line terminators
  only, \<open>handleSearch\<close> leaves the whole state as it is (so an idle state stays idle
  and the weather record, the image reference and the error message are untouched) and
  performs no effect at all: no setter is called and no lookup is invoked.
\<close>

theorem blank_input_is_noop:
  assumes "\<forall>c \<in> set (cityInput s). isWhiteSpace c \<or> isLineTerminator c"
  shows "handleSearch getCityWeather generateIsometricCity s = s \<and>
         handleSearch_script getCityWeather generateIsometricCity (cityInput s) = []"
proof -
  from assms have "trim (cityInput s) = []"
    by (simp add: trim_Nil_iff isTrimmed_def)
  then have "\<not> truthy (trim (cityInput s))" by (simp add: truthy_def)
  then show ?thesis by (simp add: handleSearch_blank handleSearch_script_def)
qed

theorem blank_input_is_noop_witness:
  "handleSearch weather_resolves (image_resolves ''scene.png'')
     (initial\<lparr>cityInput := [0x20, 0x09, 0x3000, 0x0A]\<rparr>) =
     initial\<lparr>cityInput := [0x20, 0x09, 0x3000, 0x0A]\<rparr> \<and>
   handleSearch_script weather_resolves (image_resolves ''scene.png'') [0x20, 0x09, 0x3000, 0x0A] = [] \<and>
   handleSearch weather_resolves (image_resolves ''scene.png'') initial = initial"
  using blank_input_is_noop [of "initial\<lparr>cityInput := [0x20, 0x09, 0x3000, 0x0A]\<rparr>"
      weather_resolves "image_resolves ''scene.png''"]
    blank_input_is_noop [of initial weather_resolves "image_resolves ''scene.png''"]
  by (simp add: isWhiteSpace_def isLineTerminator_def) (simp add: initial_def)

section \<open>Reset\<close>

text \<open>
  C5: in every state, \<open>handleReset\<close> leads to the view state \<open>IDLE\<close> with the city
  input, the weather record and the image reference cleared.
\<close>

theorem reset_clears_and_returns_to_idle:
  "appState (handleReset s) = IDLE \<and> cityInput (handleReset s) = [] \<and>
   weatherData (handleReset s) = None \<and> generatedImage (handleReset s) = []"
  by (simp add: handleReset_eq)

theorem reset_clears_and_returns_to_idle_witness:
  "appState displayed_kyoto = DISPLAY \<and> weatherData displayed_kyoto = Some kyoto \<and>
   appState (handleReset displayed_kyoto) = IDLE \<and> cityInput (handleReset displayed_kyoto) = [] \<and>
   weatherData (handleReset displayed_kyoto) = None \<and>
   generatedImage (handleReset displayed_kyoto) = []"
  using reset_clears_and_returns_to_idle [of displayed_kyoto]
  by (simp add: displayed_kyoto_eq)

section \<open>What the scripts call and set\<close>

text \<open>
  The \<open>catch\<close> block calls no collaborator and sets the view state once; no script of
  \<open>handleSearch\<close> clears the weather record, and a script calls the generation only
  with the record the lookup resolved with.
\<close>

lemma catch_no_generation: "CallGenerateIsometricCity d \<notin> set (handleSearch_catch e)"
  by (simp add: handleSearch_catch_def)

lemma catch_calls: "calls (handleSearch_catch e) = []"
  by (simp add: handleSearch_catch_def calls_def)

lemma catch_state_trace: "state_trace (handleSearch_catch e) = [ERROR]"
  by (simp add: handleSearch_catch_def)

lemma catch_keeps_record: "SetWeatherData None \<notin> set (handleSearch_catch e)"
  by (simp add: handleSearch_catch_def)

lemma script_keeps_record: "SetWeatherData None \<notin> set (handleSearch_script gw gi c)"
  by (simp add: handleSearch_script_def catch_keeps_record split: promise.splits)

lemma script_generation_call:
  "CallGenerateIsometricCity d \<in> set (handleSearch_script gw gi c) \<Longrightarrow>
   truthy (trim c) \<and> gw c = Resolved d"
  by (auto simp: handleSearch_script_def catch_no_generation split: promise.splits if_splits)

lemma handleSearch_keeps_record:
  assumes "weatherData s \<noteq> None"
  shows "weatherData (handleSearch gw gi s) \<noteq> None"
proof (cases "truthy (trim (cityInput s))")
  case False
  with assms show ?thesis by (simp add: handleSearch_blank)
next
  case t: True
  show ?thesis
  proof (cases "gw (cityInput s)")
    case Pending
    with t assms show ?thesis by (simp add: handleSearch_lookup_pending)
  next
    case (Rejected e)
    from run_catch obtain m where
      "run (s\<lparr>errorMsg := [], appState := FETCHING_WEATHER\<rparr>) (handleSearch_catch e) =
         s\<lparr>errorMsg := [], appState := FETCHING_WEATHER\<rparr>\<lparr>errorMsg := m, appState := ERROR\<rparr>"
      by blast
    with t Rejected assms show ?thesis by (simp add: handleSearch_lookup_rejected)
  next
    case (Resolved d)
    show ?thesis
    proof (cases "gi d")
      case Pending
      with t Resolved show ?thesis by (simp add: handleSearch_image_pending)
    next
      case (Rejected e)
      from run_catch obtain m where
        "run (s\<lparr>errorMsg := [], weatherData := Some d, appState := GENERATING_IMAGE\<rparr>)
           (handleSearch_catch e) =
         s\<lparr>errorMsg := [], weatherData := Some d, appState := GENERATING_IMAGE\<rparr>
           \<lparr>errorMsg := m, appState := ERROR\<rparr>"
        by blast
      with t Resolved Rejected show ?thesis by (simp add: handleSearch_image_rejected)
    next
      case r: (Resolved u)
      with t Resolved show ?thesis by (simp add: handleSearch_success)
    qed
  qed
qed

section \<open>The two remote calls are sequential\<close>

text \<open>
  C8: in every run of \<open>handleSearch\<close> the generation collaborator is called only if
  the weather lookup resolved, and then with the record it resolved with. When the lookup
  fails the state ends in \<open>ERROR\<close> and the lookup is the only collaborator call. When
  both succeed, the view state is set to \<open>FETCHING_WEATHER\<close>, then
  \<open>GENERATING_IMAGE\<close>, then \<open>DISPLAY\<close>, and the lookup is called before the
  generation.
\<close>

theorem generation_only_after_successful_lookup:
  fixes s :: app and getCityWeather :: weather_service and generateIsometricCity :: image_service
  defines "script \<equiv> handleSearch_script getCityWeather generateIsometricCity (cityInput s)"
    and "s' \<equiv> handleSearch getCityWeather generateIsometricCity s"
  shows
  "(CallGenerateIsometricCity d \<in> set script \<longrightarrow>
      truthy (trim (cityInput s)) \<and> getCityWeather (cityInput s) = Resolved d) \<and>
   (truthy (trim (cityInput s)) \<and> getCityWeather (cityInput s) = Rejected e \<longrightarrow>
      appState s' = ERROR \<and> calls script = [CallGetCityWeather (cityInput s)] \<and>
      state_trace script = [FETCHING_WEATHER, ERROR]) \<and>
   (truthy (trim (cityInput s)) \<and> getCityWeather (cityInput s) = Resolved d \<and>
      generateIsometricCity d = Resolved u \<longrightarrow>
      appState s' = DISPLAY \<and>
      calls script = [CallGetCityWeather (cityInput s), CallGenerateIsometricCity d] \<and>
      state_trace script = [FETCHING_WEATHER, GENERATING_IMAGE, DISPLAY])"
proof (intro conjI impI)
  assume "CallGenerateIsometricCity d \<in> set script"
  then have "truthy (trim (cityInput s)) \<and> getCityWeather (cityInput s) = Resolved d"
    unfolding script_def by (rule script_generation_call)
  then show "truthy (trim (cityInput s))" and "getCityWeather (cityInput s) = Resolved d"
    by simp_all
next
  assume h: "truthy (trim (cityInput s)) \<and> getCityWeather (cityInput s) = Rejected e"
  then have sc: "script = [SetErrorMsg [], SetAppState FETCHING_WEATHER,
      CallGetCityWeather (cityInput s)] @ handleSearch_catch e"
    by (simp add: script_def handleSearch_script_def)
  from run_catch obtain m where
    "run (s\<lparr>errorMsg := [], appState := FETCHING_WEATHER\<rparr>) (handleSearch_catch e) =
       s\<lparr>errorMsg := [], appState := FETCHING_WEATHER\<rparr>\<lparr>errorMsg := m, appState := ERROR\<rparr>"
    by blast
  with h show "appState s' = ERROR" by (simp add: s'_def handleSearch_lookup_rejected)
  from sc show "calls script = [CallGetCityWeather (cityInput s)]"
    using catch_calls [of e] by (simp add: calls_def)
  from sc show "state_trace script = [FETCHING_WEATHER, ERROR]"
    by (simp add: catch_state_trace)
next
  assume h: "truthy (trim (cityInput s)) \<and> getCityWeather (cityInput s) = Resolved d \<and>
      generateIsometricCity d = Resolved u"
  then have sc: "script = [SetErrorMsg [], SetAppState FETCHING_WEATHER,
      CallGetCityWeather (cityInput s), SetWeatherData (Some d), SetAppState GENERATING_IMAGE,
      CallGenerateIsometricCity d, SetGeneratedImage u, SetAppState DISPLAY]"
    by (simp add: script_def handleSearch_script_def)
  from h show "appState s' = DISPLAY" by (simp add: s'_def handleSearch_success)
  from sc show "calls script = [CallGetCityWeather (cityInput s), CallGenerateIsometricCity d]"
    by (simp add: calls_def)
  from sc show "state_trace script = [FETCHING_WEATHER, GENERATING_IMAGE, DISPLAY]"
    by simp
qed

theorem generation_only_after_successful_lookup_witness:
  "appState rate_limited_kyoto = ERROR \<and>
   calls (handleSearch_script (weather_rejects ''Too many requests'') (image_resolves ''scene.png'')
     (cityInput typed_kyoto)) = [CallGetCityWeather (cityInput typed_kyoto)] \<and>
   appState displayed_kyoto = DISPLAY \<and>
   calls (handleSearch_script weather_resolves (image_resolves ''scene.png'') (cityInput typed_kyoto)) =
     [CallGetCityWeather (cityInput typed_kyoto), CallGenerateIsometricCity kyoto] \<and>
   state_trace (handleSearch_script weather_resolves (image_resolves ''scene.png'')
     (cityInput typed_kyoto)) = [FETCHING_WEATHER, GENERATING_IMAGE, DISPLAY]"
proof -
  have 1: "weather_rejects ''Too many requests'' (cityInput typed_kyoto) =
      Rejected (JsError (Some (str ''Too many requests'')))"
    by (simp add: weather_rejects_def)
  have 2: "weather_resolves (cityInput typed_kyoto) = Resolved kyoto"
    by (simp add: weather_resolves_def)
  have 3: "image_resolves ''scene.png'' kyoto = Resolved (str ''scene.png'')"
    by (simp add: image_resolves_def)
  from generation_only_after_successful_lookup
    [where s = typed_kyoto and getCityWeather = "weather_rejects ''Too many requests''"
       and generateIsometricCity = "image_resolves ''scene.png''"
       and e = "JsError (Some (str ''Too many requests''))" and d = kyoto]
    typed_kyoto_truthy 1
  have a: "appState rate_limited_kyoto = ERROR \<and>
     calls (handleSearch_script (weather_rejects ''Too many requests'') (image_resolves ''scene.png'')
       (cityInput typed_kyoto)) = [CallGetCityWeather (cityInput typed_kyoto)]"
    unfolding rate_limited_kyoto_def by blast
  from generation_only_after_successful_lookup
    [where s = typed_kyoto and getCityWeather = weather_resolves
       and generateIsometricCity = "image_resolves ''scene.png''"
       and d = kyoto and u = "str ''scene.png''"]
    typed_kyoto_truthy 2 3
  have b: "appState displayed_kyoto = DISPLAY \<and>
     calls (handleSearch_script weather_resolves (image_resolves ''scene.png'') (cityInput typed_kyoto)) =
       [CallGetCityWeather (cityInput typed_kyoto), CallGenerateIsometricCity kyoto] \<and>
     state_trace (handleSearch_script weather_resolves (image_resolves ''scene.png'')
       (cityInput typed_kyoto)) = [FETCHING_WEATHER, GENERATING_IMAGE, DISPLAY]"
    unfolding displayed_kyoto_def by blast
  from a b show ?thesis by blast
qed

section \<open>The weather record after a failed generation\<close>

text \<open>
  C9: when the lookup succeeds and the generation fails, the state is \<open>ERROR\<close> and the
  record stored after the lookup is still set; \<open>handleReset\<close> then clears it. No script
  of \<open>handleSearch\<close> sets the record to \<open>null\<close>, so neither a later submission nor
  a change of the city input clears a stored record: only the reset does.
\<close>

theorem record_kept_when_generation_fails:
  fixes s t :: app and getCityWeather gw :: weather_service
    and generateIsometricCity gi :: image_service
  defines "s' \<equiv> handleSearch getCityWeather generateIsometricCity s"
  shows
  "(truthy (trim (cityInput s)) \<and> getCityWeather (cityInput s) = Resolved d \<and>
      generateIsometricCity d = Rejected e \<longrightarrow>
      appState s' = ERROR \<and> weatherData s' = Some d \<and> weatherData (handleReset s') = None) \<and>
   SetWeatherData None \<notin> set (handleSearch_script gw gi c) \<and>
   (weatherData t \<noteq> None \<longrightarrow>
      weatherData (handleSearch gw gi t) \<noteq> None \<and> weatherData (t\<lparr>cityInput := v\<rparr>) \<noteq> None)"
proof (intro conjI impI)
  assume h: "truthy (trim (cityInput s)) \<and> getCityWeather (cityInput s) = Resolved d \<and>
      generateIsometricCity d = Rejected e"
  from run_catch obtain m where
    "run (s\<lparr>errorMsg := [], weatherData := Some d, appState := GENERATING_IMAGE\<rparr>)
       (handleSearch_catch e) =
     s\<lparr>errorMsg := [], weatherData := Some d, appState := GENERATING_IMAGE\<rparr>
       \<lparr>errorMsg := m, appState := ERROR\<rparr>"
    by blast
  with h have "s' = s\<lparr>errorMsg := m, weatherData := Some d, appState := ERROR\<rparr>"
    by (simp add: s'_def handleSearch_image_rejected)
  then show "appState s' = ERROR" and "weatherData s' = Some d" by simp_all
  show "weatherData (handleReset s') = None" by (simp add: handleReset_eq)
next
  show "SetWeatherData None \<notin> set (handleSearch_script gw gi c)" by (rule script_keeps_record)
next
  assume "weatherData t \<noteq> None"
  then show "weatherData (handleSearch gw gi t) \<noteq> None" by (rule handleSearch_keeps_record)
next
  assume "weatherData t \<noteq> None"
  then show "weatherData (t\<lparr>cityInput := v\<rparr>) \<noteq> None" by simp
qed

theorem record_kept_when_generation_fails_witness:
  "appState (handleSearch weather_resolves (image_rejects ''Image generation failed'') typed_kyoto) = ERROR \<and>
   weatherData (handleSearch weather_resolves (image_rejects ''Image generation failed'') typed_kyoto) =
     Some kyoto \<and>
   weatherData (handleReset
     (handleSearch weather_resolves (image_rejects ''Image generation failed'') typed_kyoto)) = None \<and>
   weatherData (handleSearch (weather_rejects ''Too many requests'') (image_resolves ''scene.png'')
     displayed_kyoto) \<noteq> None"
proof -
  have 1: "weather_resolves (cityInput typed_kyoto) = Resolved kyoto"
    by (simp add: weather_resolves_def)
  have 2: "image_rejects ''Image generation failed'' kyoto =
      Rejected (JsError (Some (str ''Image generation failed'')))"
    by (simp add: image_rejects_def)
  have 3: "weatherData displayed_kyoto \<noteq> None" by (simp add: displayed_kyoto_eq)
  from record_kept_when_generation_fails
    [where s = typed_kyoto and getCityWeather = weather_resolves
       and generateIsometricCity = "image_rejects ''Image generation failed''"
       and d = kyoto and e = "JsError (Some (str ''Image generation failed''))"
       and t = displayed_kyoto and gw = "weather_rejects ''Too many requests''"
       and gi = "image_resolves ''scene.png''"]
    typed_kyoto_truthy 1 2 3
  show ?thesis by blast
qed

end
